theory Spec2Isabelle
  imports Main "HOL-Library.Sublist"
begin

section \<open>Field mapping validation (FieldMapperComponent)\<close>

text \<open>
  A JavaScript string is modelled as a \<^typ>\<open>string\<close> holding its UTF-8 bytes. The code
  only compares strings, tests them for emptiness and searches for substrings; on
  well-formed text these agree with the same operations on UTF-16 code units.

  A \<open>Record<string, string>\<close> that the code enumerates (\<open>Object.values\<close>,
  \<open>Object.entries\<close>) is the list of its entries in enumeration order; property lookup
  \<open>mapping[k]\<close> is \<^const>\<open>map_of\<close> (\<open>undefined\<close> is \<^const>\<open>None\<close>). A record that the
  code only writes and hands on (\<open>errors\<close>) is a map.
\<close>

type_synonym FieldMapping = "(string \<times> string) list"

type_synonym errors_record = "string \<rightharpoonup> string"

record AnkiField =
  id_field :: string
  label :: string
  required :: bool

definition ankiFields :: "AnkiField list" where
  "ankiFields =
    [\<lparr>id_field = ''japanese'', label = ''Japanese Word'', required = True\<rparr>,
     \<lparr>id_field = ''english'', label = ''English Meaning'', required = False\<rparr>,
     \<lparr>id_field = ''reading'', label = ''Reading/Pronunciation'', required = False\<rparr>,
     \<lparr>id_field = ''example'', label = ''Example Sentence'', required = False\<rparr>,
     \<lparr>id_field = ''tags'', label = ''Tags'', required = False\<rparr>]"

text \<open>The part of the component's React state that the functions below read or write.\<close>

record component_state =
  headers :: "string list"
  currentMapping :: FieldMapping
  validationErrors :: errors_record

text \<open>The state of a freshly mounted component: the initial values of its \<open>useState\<close> calls.\<close>

definition initial_state :: component_state where
  "initial_state = \<lparr>headers = [], currentMapping = [], validationErrors = Map.empty\<rparr>"

text \<open>JavaScript truthiness of a property read: \<open>undefined\<close> and \<open>''\<close> are falsy.\<close>

definition Boolean :: "string \<Rightarrow> bool" where
  "Boolean v = (v \<noteq> [])"

definition truthy :: "string option \<Rightarrow> bool" where
  "truthy v = (case v of None \<Rightarrow> False | Some x \<Rightarrow> Boolean x)"

text \<open>
  \<^verbatim>\<open>ankiFields.forEach(field => {
    if (field.required && (!mapping[field.id] || mapping[field.id] === '')) {
      errors[field.id] = `${field.label} is required`;
      isValid = false;
    }
  });\<close>
\<close>

fun check_required :: "AnkiField list \<Rightarrow> FieldMapping \<Rightarrow> errors_record \<times> bool \<Rightarrow> errors_record \<times> bool" where
  "check_required [] mapping (errors, isValid) = (errors, isValid)"
| "check_required (field # rest) mapping (errors, isValid) =
     (if required field \<and>
         (\<not> truthy (map_of mapping (id_field field)) \<or> map_of mapping (id_field field) = Some [])
      then check_required rest mapping
             (errors(id_field field \<mapsto> label field @ '' is required''), False)
      else check_required rest mapping (errors, isValid))"

text \<open>
  \<^verbatim>\<open>const seen = new Set();
  const duplicates = usedHeaders.filter(item => {
    if (!item) return false;
    if (seen.has(item)) return true;
    seen.add(item);
    return false;
  });\<close>
\<close>

fun find_duplicates :: "string set \<Rightarrow> string list \<Rightarrow> string list" where
  "find_duplicates seen [] = []"
| "find_duplicates seen (item # items) =
     (if \<not> Boolean item then find_duplicates seen items
      else if item \<in> seen then item # find_duplicates seen items
      else find_duplicates (insert item seen) items)"

text \<open>
  \<^verbatim>\<open>Object.entries(mapping).forEach(([field, header]) => {
    if (duplicates.includes(header)) {
      errors[field] = `This column is used in multiple fields`;
    }
  });\<close>
\<close>

fun mark_duplicates :: "string list \<Rightarrow> FieldMapping \<Rightarrow> errors_record \<Rightarrow> errors_record" where
  "mark_duplicates duplicates [] errors = errors"
| "mark_duplicates duplicates ((field, header) # entries) errors =
     (if header \<in> set duplicates
      then mark_duplicates duplicates entries
             (errors(field \<mapsto> ''This column is used in multiple fields''))
      else mark_duplicates duplicates entries errors)"

text \<open>
  \<open>validateMapping\<close> returns the flag and hands the errors record to
  \<open>setValidationErrors\<close>, which replaces that part of the component state.
\<close>

definition validateMapping :: "FieldMapping \<Rightarrow> component_state \<Rightarrow> bool \<times> component_state" where
  "validateMapping mapping s =
     (let (errors, isValid) = check_required ankiFields mapping (Map.empty, True);
          usedHeaders = filter Boolean (map snd mapping);
          uniqueHeaders = set usedHeaders;
          (errors, isValid) =
            (if length usedHeaders \<noteq> card uniqueHeaders
             then (let duplicates = find_duplicates {} usedHeaders
                   in (mark_duplicates duplicates mapping errors, False))
             else (errors, isValid))
      in (isValid, s\<lparr>validationErrors := errors\<rparr>))"

section \<open>Header-name matching (FieldMapperComponent)\<close>

text \<open>
  The native-script synonyms of the source, as UTF-8 bytes: \<open>lit_nihongo\<close> is the
  three characters U+65E5 U+672C U+8A9E, \<open>lit_eigo\<close> is U+82F1 U+8A9E,
  \<open>lit_yomikata\<close> is U+8AAD U+307F U+65B9 and \<open>lit_reibun\<close> is U+4F8B U+6587.
\<close>

definition lit_nihongo :: string where
  "lit_nihongo = [CHR 0xE6, CHR 0x97, CHR 0xA5, CHR 0xE6, CHR 0x9C, CHR 0xAC, CHR 0xE8, CHR 0xAA, CHR 0x9E]"

definition lit_eigo :: string where
  "lit_eigo = [CHR 0xE8, CHR 0x8B, CHR 0xB1, CHR 0xE8, CHR 0xAA, CHR 0x9E]"

definition lit_yomikata :: string where
  "lit_yomikata = [CHR 0xE8, CHR 0xAA, CHR 0xAD, CHR 0xE3, CHR 0x81, CHR 0xBF, CHR 0xE6, CHR 0x96, CHR 0xB9]"

definition lit_reibun :: string where
  "lit_reibun = [CHR 0xE4, CHR 0xBE, CHR 0x8B, CHR 0xE6, CHR 0x96, CHR 0x87]"

definition synonyms :: "(string \<times> string list) list" where
  "synonyms =
    [(''japanese'', [''japanese'', ''word'', ''expression'', ''kanji'', ''vocabulary'', lit_nihongo, ''front'']),
     (''english'', [''english'', ''meaning'', ''translation'', ''definition'', lit_eigo, ''back'']),
     (''reading'', [''reading'', ''pronunciation'', ''kana'', ''hiragana'', ''yomigana'', lit_yomikata]),
     (''example'', [''example'', ''sentence'', ''usage'', ''context'', lit_reibun]),
     (''tags'', [''tags'', ''tag'', ''category'', ''categories'', ''group''])]"

text \<open>\<open>s.includes(t)\<close>: \<open>t\<close> occurs in \<open>s\<close> as a contiguous substring.\<close>

definition includes_str :: "string \<Rightarrow> string \<Rightarrow> bool" where
  "includes_str s t = sublist t s"

text \<open>
  \<open>String.prototype.toLowerCase\<close> belongs to the JavaScript runtime, not to this
  repository; \<open>findPossibleMatches\<close> takes it as a parameter. The field argument is
  looked up among the own properties of \<open>synonyms\<close>; the component calls the function
  with the ids of \<open>ankiFields\<close> only.
\<close>

definition findPossibleMatches :: "(string \<Rightarrow> string) \<Rightarrow> component_state \<Rightarrow> string \<Rightarrow> string list" where
  "findPossibleMatches toLowerCase s ankiField =
     (if length (headers s) = 0 then []
      else (let fieldSynonyms = (case map_of synonyms ankiField of None \<Rightarrow> [] | Some l \<Rightarrow> l)
            in filter (\<lambda>header.
                 list_ex (\<lambda>synonym. includes_str (toLowerCase header) (toLowerCase synonym))
                   fieldSynonyms)
               (headers s)))"

text \<open>
  What \<open>toLowerCase\<close> computes on text whose only cased letters are A to Z; used to
  evaluate \<open>findPossibleMatches\<close> on concrete headers.
\<close>

definition basic_latin_toLowerCase :: "string \<Rightarrow> string" where
  "basic_latin_toLowerCase =
     map (\<lambda>c. case map_of (zip ''ABCDEFGHIJKLMNOPQRSTUVWXYZ'' ''abcdefghijklmnopqrstuvwxyz'') c of
                Some l \<Rightarrow> l
              | None \<Rightarrow> c)"

text \<open>
  The synonym lists as the specification enumerates them, and the matching rule it
  states over them.
\<close>

definition spec_synonyms :: "string \<Rightarrow> string list" where
  "spec_synonyms ankiField =
     (if ankiField = ''japanese''
        then [''japanese'', ''word'', ''front'', ''kanji'', ''vocabulary'', ''expression'', lit_nihongo]
      else if ankiField = ''english''
        then [''english'', ''meaning'', ''translation'', ''back'', ''definition'']
      else if ankiField = ''reading''
        then [''reading'', ''pronunciation'', ''kana'', ''hiragana'', ''yomigana'']
      else if ankiField = ''example''
        then [''example'', ''sentence'', ''usage'', ''context'']
      else if ankiField = ''tags''
        then [''tag'', ''tags'', ''category'', ''categories'', ''group'']
      else [])"

definition spec_candidate :: "(string \<Rightarrow> string) \<Rightarrow> string \<Rightarrow> string \<Rightarrow> bool" where
  "spec_candidate toLowerCase ankiField header =
     list_ex (\<lambda>synonym. sublist (toLowerCase synonym) (toLowerCase header))
       (spec_synonyms ankiField)"

section \<open>API client: validateFieldMapping\<close>

text \<open>
  A rejected promise or a thrown exception is the \<open>Inl\<close> of a sum. \<open>axios.post\<close> is
  the HTTP collaborator and is a parameter: given the URL and the request body it
  either fails or yields a response whose \<open>data\<close> is the server's answer.
\<close>

datatype js_error = Thrown string

record ValidationResult =
  valid :: bool
  errors :: errors_record

record validate_body =
  body_session_id :: string
  body_mapping :: FieldMapping

record 'a axios_response =
  data :: 'a
  status :: nat

definition API_BASE_URL :: string where
  "API_BASE_URL = ''http://localhost:8000/api''"

definition validateFieldMapping ::
  "(string \<Rightarrow> validate_body \<Rightarrow> js_error + ValidationResult axios_response) \<Rightarrow>
   string \<Rightarrow> FieldMapping \<Rightarrow> js_error + ValidationResult" where
  "validateFieldMapping axios_post sessionId mapping =
     (case axios_post (API_BASE_URL @ ''/mapping/validate'')
             \<lparr>body_session_id = sessionId, body_mapping = mapping\<rparr> of
        Inr response \<Rightarrow> Inr (data response)
      | Inl error \<Rightarrow>
          Inr \<lparr>valid = False,
               errors = [''_general'' \<mapsto> ''Failed to validate field mapping with server'']\<rparr>)"

section \<open>Word lookup and sense selection (JapaneseWordLookup)\<close>

text \<open>
  The lookup response is an untyped object in the source; the fields the handlers read
  are given here. \<open>senses\<close> may be missing from a response.
\<close>

record Sense =
  sense_meanings :: "string list"
  sense_parts_of_speech :: "string list"
  sense_tags :: "string list"

record Example =
  example_japanese :: string
  example_english :: string

record LookupData =
  data_word :: string
  data_reading :: "string option"
  data_meanings :: "string list"
  data_parts_of_speech :: "string list"
  data_senses :: "Sense list option"
  data_examples :: "Example list"

record add_word_request =
  req_word :: string
  req_reading :: "string option"
  req_meanings :: "string list"
  req_partsOfSpeech :: "string list"
  req_examples :: "Example list"
  req_collectionId :: "string option"
  req_selectedSenseIds :: "nat list option"

record add_word_response =
  resp_collection_id :: "string option"
  resp_word_count :: nat
  resp_message :: string

record lookup_state =
  word :: string
  result :: "LookupData option"
  isLoading :: bool
  error :: "string option"
  selectedSenseIds :: "nat list"
  collectionId :: "string option"
  stored_wordCollectionId :: "string option"
  wordCount :: nat
  isAddingToCollection :: bool
  toasts :: "string list"

text \<open>
  The state of a freshly mounted lookup component when the browser holds no stored
  collection id.
\<close>

definition initial_lookup_state :: lookup_state where
  "initial_lookup_state =
     \<lparr>word = [], result = None, isLoading = False, error = None, selectedSenseIds = [],
      collectionId = None, stored_wordCollectionId = None, wordCount = 0,
      isAddingToCollection = False, toasts = []\<rparr>"

text \<open>
  What \<open>trim\<close> computes on text whose only white space is the space character; used
  to evaluate \<open>handleLookup\<close> on concrete input.
\<close>

definition trim_spaces :: "string \<Rightarrow> string" where
  "trim_spaces w =
     rev (dropWhile (\<lambda>c. c = CHR '' '') (rev (dropWhile (\<lambda>c. c = CHR '' '') w)))"

text \<open>
  \<open>handleLookup\<close>. \<open>trim\<close> is the runtime's \<open>String.prototype.trim\<close> and
  \<open>lookupWord\<close> the API call; both are parameters.
\<close>

definition handleLookup ::
  "(string \<Rightarrow> string) \<Rightarrow> (string \<Rightarrow> js_error + LookupData) \<Rightarrow> lookup_state \<Rightarrow> lookup_state" where
  "handleLookup trim lookupWord s =
     (if \<not> Boolean (trim (word s))
      then s\<lparr>error := Some ''Please enter a Japanese word to look up''\<rparr>
      else
        (let s1 = s\<lparr>isLoading := True, error := None, selectedSenseIds := []\<rparr>;
             s2 = (case lookupWord (trim (word s)) of
                     Inr d \<Rightarrow>
                       (let s' = s1\<lparr>result := Some d\<rparr>
                        in (case data_senses d of
                              Some senses \<Rightarrow>
                                (if length senses > 0
                                 then (if length senses = 1
                                       then s'\<lparr>selectedSenseIds := [0]\<rparr>
                                       else s'\<lparr>selectedSenseIds := [0]\<rparr>)
                                 else s'\<lparr>selectedSenseIds := []\<rparr>)
                            | None \<Rightarrow> s'\<lparr>selectedSenseIds := []\<rparr>))
                   | Inl err \<Rightarrow>
                       s1\<lparr>error := Some ''Failed to look up the word. Please try again.''\<rparr>)
         in s2\<lparr>isLoading := False\<rparr>))"

text \<open>
  \<^verbatim>\<open>selectedSenseIds.forEach(senseId => {
    const sense = result.senses[senseId];
    if (sense) {
      selectedMeanings.push(...sense.meanings);
      selectedPartsOfSpeech.push(...sense.parts_of_speech);
    }
  });\<close>
  An index outside the array reads \<open>undefined\<close> and is skipped.
\<close>

fun collect_senses :: "Sense list \<Rightarrow> nat list \<Rightarrow> string list \<times> string list \<Rightarrow> string list \<times> string list" where
  "collect_senses senses [] (selectedMeanings, selectedPartsOfSpeech) =
     (selectedMeanings, selectedPartsOfSpeech)"
| "collect_senses senses (senseId # ids) (selectedMeanings, selectedPartsOfSpeech) =
     (if senseId < length senses
      then collect_senses senses ids
             (selectedMeanings @ sense_meanings (senses ! senseId),
              selectedPartsOfSpeech @ sense_parts_of_speech (senses ! senseId))
      else collect_senses senses ids (selectedMeanings, selectedPartsOfSpeech))"

text \<open>The arguments \<open>handleAddToCollection\<close> passes to \<open>addWordToCollection\<close>.\<close>

definition add_request :: "LookupData \<Rightarrow> lookup_state \<Rightarrow> add_word_request" where
  "add_request r s =
     (let (selectedMeanings, selectedPartsOfSpeech) =
            (case data_senses r of
               Some senses \<Rightarrow>
                 (if length (selectedSenseIds s) > 0
                  then collect_senses senses (selectedSenseIds s) ([], [])
                  else (data_meanings r, data_parts_of_speech r))
             | None \<Rightarrow> (data_meanings r, data_parts_of_speech r))
      in \<lparr>req_word = data_word r,
          req_reading = data_reading r,
          req_meanings = selectedMeanings,
          req_partsOfSpeech = selectedPartsOfSpeech,
          req_examples = data_examples r,
          req_collectionId = (if truthy (collectionId s) then collectionId s else None),
          req_selectedSenseIds =
            (if length (selectedSenseIds s) > 0 then Some (selectedSenseIds s) else None)\<rparr>)"

definition handleAddToCollection ::
  "(add_word_request \<Rightarrow> js_error + add_word_response) \<Rightarrow> lookup_state \<Rightarrow> lookup_state" where
  "handleAddToCollection addWordToCollection s =
     (case result s of
        None \<Rightarrow> s
      | Some r \<Rightarrow>
          (if (case data_senses r of Some senses \<Rightarrow> length senses > 1 | None \<Rightarrow> False)
              \<and> length (selectedSenseIds s) = 0
           then s\<lparr>toasts := toasts s @ [''Please select meanings'']\<rparr>
           else
             (let s1 = s\<lparr>isAddingToCollection := True\<rparr>;
                  s2 = (case addWordToCollection (add_request r s) of
                          Inr response \<Rightarrow>
                            (let s' = (if \<not> truthy (collectionId s) \<and> truthy (resp_collection_id response)
                                       then s1\<lparr>collectionId := resp_collection_id response,
                                              stored_wordCollectionId := resp_collection_id response\<rparr>
                                       else s1)
                             in s'\<lparr>wordCount := resp_word_count response,
                                   toasts := toasts s' @ [''Word added!'']\<rparr>)
                        | Inl err \<Rightarrow> s1\<lparr>toasts := toasts s1 @ [''Error adding word'']\<rparr>)
              in s2\<lparr>isAddingToCollection := False\<rparr>)))"

text \<open>
  A lookup response with two senses and a lookup call that always answers with it, for
  evaluating the handlers on concrete input.
\<close>

definition sample_senses :: "Sense list" where
  "sample_senses =
     [\<lparr>sense_meanings = [''bridge''], sense_parts_of_speech = [''Noun''], sense_tags = []\<rparr>,
      \<lparr>sense_meanings = [''chopsticks''], sense_parts_of_speech = [''Noun''], sense_tags = []\<rparr>]"

definition sample_data :: LookupData where
  "sample_data =
     \<lparr>data_word = ''hashi'', data_reading = Some ''hashi'',
      data_meanings = [''bridge'', ''chopsticks''], data_parts_of_speech = [''Noun''],
      data_senses = Some sample_senses, data_examples = []\<rparr>"

definition sample_lookupWord :: "string \<Rightarrow> js_error + LookupData" where
  "sample_lookupWord w = Inr sample_data"

text \<open>
  The setter of the selection state. The checkbox group calls it with the ticked
  indices: \<^verbatim>\<open>onChange={(values) => setSelectedSenseIds(values.map(Number))}\<close>.
\<close>

definition setSelectedSenseIds :: "nat list \<Rightarrow> lookup_state \<Rightarrow> lookup_state" where
  "setSelectedSenseIds ids s = s\<lparr>selectedSenseIds := ids\<rparr>"

text \<open>
  An add-word call that always succeeds, and the state after looking up the word hashi,
  typed with surrounding spaces, for evaluating the handlers on concrete input.
\<close>

definition sample_addWordToCollection :: "add_word_request \<Rightarrow> js_error + add_word_response" where
  "sample_addWordToCollection r =
     Inr \<lparr>resp_collection_id = Some ''collection-1'', resp_word_count = 1,
          resp_message = ''Word added to collection''\<rparr>"

definition sample_looked_up :: lookup_state where
  "sample_looked_up =
     handleLookup trim_spaces sample_lookupWord (initial_lookup_state\<lparr>word := '' hashi ''\<rparr>)"

section \<open>Enrichment and card assembly (backend services)\<close>






























section \<open>Properties of the validation\<close>

lemma check_required_ankiFields:
  "check_required ankiFields mapping (Map.empty, True) =
     (if truthy (map_of mapping ''japanese'')
      then (Map.empty, True)
      else ([''japanese'' \<mapsto> ''Japanese Word is required''], False))"
  by (simp add: ankiFields_def truthy_def Boolean_def split: option.splits)

lemma find_duplicates_set:
  "x \<in> set (find_duplicates seen xs) \<longleftrightarrow>
     x \<noteq> [] \<and> (x \<in> seen \<and> x \<in> set xs \<or> 2 \<le> count_list xs x)"
proof (induction xs arbitrary: seen)
  case Nil
  then show ?case by simp
next
  case (Cons item items)
  have one: "1 \<le> count_list items x \<longleftrightarrow> x \<in> set items"
    using count_list_0_iff [of items x] by auto
  show ?case
    using one by (auto simp: Cons.IH Boolean_def)
qed

lemma find_duplicates_nonempty: "[] \<notin> set (find_duplicates seen xs)"
  by (simp add: find_duplicates_set)

lemma count_list_filter:
  "count_list (filter P xs) x = (if P x then count_list xs x else 0)"
  by (induction xs) auto

lemma entry_counted:
  "(f, c) \<in> set m \<Longrightarrow> 1 \<le> count_list (map snd m) c"
  by (induction m) auto

lemma two_entries_counted:
  "(f1, c) \<in> set m \<Longrightarrow> (f2, c) \<in> set m \<Longrightarrow> f1 \<noteq> f2 \<Longrightarrow> 2 \<le> count_list (map snd m) c"
proof (induction m)
  case Nil
  then show ?case by simp
next
  case (Cons e m)
  then show ?case
    using entry_counted [of f1 c m] entry_counted [of f2 c m]
    by (cases e) auto
qed

lemma repeated_not_distinct:
  "2 \<le> count_list xs x \<Longrightarrow> \<not> distinct xs"
  by (induction xs) (auto simp: count_list_0_iff split: if_splits)

lemma length_card_distinct:
  "length xs \<noteq> card (set xs) \<longleftrightarrow> \<not> distinct xs"
  using card_distinct distinct_card by metis

lemma mark_duplicates_apply:
  "mark_duplicates d m e f =
     (if \<exists>h. (f, h) \<in> set m \<and> h \<in> set d
      then Some ''This column is used in multiple fields'' else e f)"
  by (induction m arbitrary: e) auto

text \<open>
  The two outcomes of \<open>validateMapping\<close>: the used headers are pairwise distinct and
  only the required-field check decides, or some header repeats.
\<close>

lemma validateMapping_cases:
  "validateMapping m s =
     (if distinct (filter Boolean (map snd m))
      then (snd (check_required ankiFields m (Map.empty, True)),
            s\<lparr>validationErrors := fst (check_required ankiFields m (Map.empty, True))\<rparr>)
      else (False,
            s\<lparr>validationErrors :=
                 mark_duplicates (find_duplicates {} (filter Boolean (map snd m))) m
                   (fst (check_required ankiFields m (Map.empty, True)))\<rparr>))"
  by (simp add: validateMapping_def Let_def length_card_distinct split: prod.splits)

lemma map_of_filter_truthy:
  "distinct (map fst m) \<Longrightarrow>
     truthy (map_of (filter (\<lambda>(f, h). Boolean h) m) k) = truthy (map_of m k)"
proof (induction m)
  case Nil
  then show ?case by simp
next
  case (Cons e m)
  obtain f h where e: "e = (f, h)" by (cases e)
  have absent: "k = f \<Longrightarrow> map_of (filter (\<lambda>(f, h). Boolean h) m) k = None"
    using Cons.prems e by (auto simp: map_of_eq_None_iff image_iff)
  show ?case
    using Cons e absent by (auto simp: truthy_def)
qed

lemma used_headers_filter:
  "filter Boolean (map snd (filter (\<lambda>(f, h). Boolean h) m)) = filter Boolean (map snd m)"
  by (induction m) auto

lemma mark_duplicates_filter:
  "[] \<notin> set d \<Longrightarrow>
     mark_duplicates d (filter (\<lambda>(f, h). Boolean h) m) e = mark_duplicates d m e"
  by (induction m arbitrary: e) (auto simp: Boolean_def)

text \<open>
  C1. When two different fields of a mapping are mapped to the same non-empty column,
  \<open>validateMapping\<close> returns \<open>false\<close> and the errors record carries the message
  \<open>This column is used in multiple fields\<close> for each of the two fields, hence for
  every field mapped to a colliding column.
\<close>

theorem validateMapping_duplicate_columns:
  assumes "(f1, col) \<in> set mapping" and "(f2, col) \<in> set mapping"
      and "f1 \<noteq> f2" and "col \<noteq> []"
  shows "fst (validateMapping mapping s) = False \<and>
         validationErrors (snd (validateMapping mapping s)) f1
           = Some ''This column is used in multiple fields'' \<and>
         validationErrors (snd (validateMapping mapping s)) f2
           = Some ''This column is used in multiple fields''"
proof -
  let ?used = "filter Boolean (map snd mapping)"
  have twice: "2 \<le> count_list ?used col"
    using assms two_entries_counted [of f1 col mapping f2]
    by (simp add: count_list_filter Boolean_def)
  then have nd: "\<not> distinct ?used"
    by (rule repeated_not_distinct)
  have dup: "col \<in> set (find_duplicates {} ?used)"
    using twice assms(4) by (simp add: find_duplicates_set)
  show ?thesis
    using nd dup assms(1,2)
    by (auto simp: validateMapping_cases mark_duplicates_apply)
qed

text \<open>The mapping japanese:ColA, english:ColA is rejected with an error on both fields.\<close>

theorem validateMapping_duplicate_columns_witness:
  "fst (validateMapping [(''japanese'', ''ColA''), (''english'', ''ColA'')] initial_state) = False \<and>
   validationErrors (snd (validateMapping [(''japanese'', ''ColA''), (''english'', ''ColA'')] initial_state))
      ''japanese'' = Some ''This column is used in multiple fields'' \<and>
   validationErrors (snd (validateMapping [(''japanese'', ''ColA''), (''english'', ''ColA'')] initial_state))
      ''english'' = Some ''This column is used in multiple fields''"
  using validateMapping_duplicate_columns
          [of "''japanese''" "''ColA''" "[(''japanese'', ''ColA''), (''english'', ''ColA'')]"
              "''english''" initial_state]
  by simp

text \<open>
  C2, as the code has it. \<open>validateMapping\<close> returns \<open>true\<close> only if \<open>japanese\<close> is
  mapped to a non-empty column name. It never reads \<open>headers\<close>: whether the column
  exists in the analysed CSV is left to the server-side validation.
\<close>

theorem validateMapping_valid_needs_japanese:
  "fst (validateMapping mapping s) \<Longrightarrow>
     \<exists>col. map_of mapping ''japanese'' = Some col \<and> col \<noteq> []"
  by (auto simp: validateMapping_cases check_required_ankiFields truthy_def Boolean_def
           split: if_splits option.splits)

theorem validateMapping_valid_needs_japanese_witness:
  "fst (validateMapping [(''japanese'', ''Term'')] initial_state) \<and>
   (\<exists>col. map_of [(''japanese'', ''Term'')] ''japanese'' = Some col \<and> col \<noteq> [])"
proof -
  have v: "fst (validateMapping [(''japanese'', ''Term'')] initial_state)"
    by (simp add: validateMapping_cases check_required_ankiFields truthy_def Boolean_def)
  show ?thesis
    using v validateMapping_valid_needs_japanese [OF v] by simp
qed

text \<open>
  With the single header Term, the mapping japanese:Missing is accepted although no
  column Missing exists.
\<close>

theorem validateMapping_ignores_headers_counterexample:
  "fst (validateMapping [(''japanese'', ''Missing'')]
          \<lparr>headers = [''Term''], currentMapping = [], validationErrors = Map.empty\<rparr>) = True
   \<and> ''Missing'' \<notin> set (headers
          \<lparr>headers = [''Term''], currentMapping = [], validationErrors = Map.empty\<rparr>)"
  by (simp add: validateMapping_cases check_required_ankiFields truthy_def Boolean_def)

text \<open>
  C5, as the code has it. The flag and the errors record are determined by the mapping
  alone, whatever the component state; a second call with the same mapping changes
  nothing further; and the call leaves every part of the state other than
  \<open>validationErrors\<close> as it was. The call does have an effect: it replaces
  \<open>validationErrors\<close> by the errors record it computed.
\<close>

theorem validateMapping_deterministic_idempotent:
  "fst (validateMapping mapping s) = fst (validateMapping mapping s') \<and>
   validationErrors (snd (validateMapping mapping s))
     = validationErrors (snd (validateMapping mapping s')) \<and>
   validateMapping mapping (snd (validateMapping mapping s)) = validateMapping mapping s \<and>
   snd (validateMapping mapping s)
     = s\<lparr>validationErrors := validationErrors (snd (validateMapping mapping s))\<rparr>"
  by (simp add: validateMapping_cases)

text \<open>
  A state that holds a server-side error under \<open>_general\<close> is changed by validating
  the mapping japanese:Term: the entry is gone afterwards.
\<close>

theorem validateMapping_overwrites_errors_counterexample:
  "snd (validateMapping [(''japanese'', ''Term'')]
          \<lparr>headers = [''Term''], currentMapping = [(''japanese'', ''Term'')],
           validationErrors = [''_general'' \<mapsto> ''Failed to validate field mapping with server'']\<rparr>)
   \<noteq> \<lparr>headers = [''Term''], currentMapping = [(''japanese'', ''Term'')],
        validationErrors = [''_general'' \<mapsto> ''Failed to validate field mapping with server'']\<rparr>"
proof -
  have "validationErrors (snd (validateMapping [(''japanese'', ''Term'')]
          \<lparr>headers = [''Term''], currentMapping = [(''japanese'', ''Term'')],
           validationErrors = [''_general'' \<mapsto> ''Failed to validate field mapping with server'']\<rparr>))
          ''_general'' = None"
    by (simp add: validateMapping_cases check_required_ankiFields truthy_def Boolean_def)
  then show ?thesis
    by (metis component_state.select_convs(3) fun_upd_same option.distinct(1))
qed

text \<open>
  C8. For the headers Term, Definition, Pronunciation and the mapping
  japanese:Term, english:Definition, reading:Pronunciation, \<open>validateMapping\<close>
  returns \<open>true\<close> and the errors record is empty.
\<close>

theorem validateMapping_term_definition_pronunciation:
  "fst (validateMapping
          [(''japanese'', ''Term''), (''english'', ''Definition''), (''reading'', ''Pronunciation'')]
          (s\<lparr>headers := [''Term'', ''Definition'', ''Pronunciation'']\<rparr>))
     = True
   \<and> validationErrors (snd (validateMapping
          [(''japanese'', ''Term''), (''english'', ''Definition''), (''reading'', ''Pronunciation'')]
          (s\<lparr>headers := [''Term'', ''Definition'', ''Pronunciation'']\<rparr>)))
     = Map.empty"
  by (simp add: validateMapping_cases check_required_ankiFields truthy_def Boolean_def)

text \<open>
  C10. Entries mapped to the empty string do not take part in the uniqueness check.
  When the non-empty column names of a mapping are pairwise distinct, however many
  fields are mapped to the empty string, no field receives the duplicate-column error
  and the mapping is valid exactly when \<open>japanese\<close> is mapped to a non-empty column.
  Moreover a mapping is validated exactly as the same mapping with its empty entries
  removed.
\<close>

theorem validateMapping_empty_entries_absent:
  "(distinct (filter Boolean (map snd mapping)) \<longrightarrow>
      fst (validateMapping mapping s) = truthy (map_of mapping ''japanese'') \<and>
      (\<forall>f. validationErrors (snd (validateMapping mapping s)) f
             \<noteq> Some ''This column is used in multiple fields'')) \<and>
   (distinct (map fst mapping) \<longrightarrow>
      validateMapping mapping s = validateMapping (filter (\<lambda>(f, h). Boolean h) mapping) s)"
proof (intro conjI impI)
  assume d: "distinct (filter Boolean (map snd mapping))"
  show "fst (validateMapping mapping s) = truthy (map_of mapping ''japanese'')"
    using d by (simp add: validateMapping_cases check_required_ankiFields)
  show "\<forall>f. validationErrors (snd (validateMapping mapping s)) f
             \<noteq> Some ''This column is used in multiple fields''"
    using d by (simp add: validateMapping_cases check_required_ankiFields)
next
  assume k: "distinct (map fst mapping)"
  show "validateMapping mapping s = validateMapping (filter (\<lambda>(f, h). Boolean h) mapping) s"
    using map_of_filter_truthy [OF k, of "''japanese''"]
    by (simp add: validateMapping_cases check_required_ankiFields used_headers_filter
                  mark_duplicates_filter find_duplicates_nonempty)
qed

text \<open>
  Four fields mapped to the empty string next to japanese:Term: the mapping is valid
  and is validated as japanese:Term alone.
\<close>

theorem validateMapping_empty_entries_absent_witness:
  "distinct (filter Boolean (map snd
       [(''japanese'', ''Term''), (''english'', []), (''reading'', []), (''example'', []), (''tags'', [])])) \<and>
   distinct (map fst
       [(''japanese'', ''Term''), (''english'', []), (''reading'', []), (''example'', []), (''tags'', [])]) \<and>
   fst (validateMapping
       [(''japanese'', ''Term''), (''english'', []), (''reading'', []), (''example'', []), (''tags'', [])] initial_state) = True \<and>
   validateMapping
       [(''japanese'', ''Term''), (''english'', []), (''reading'', []), (''example'', []), (''tags'', [])] initial_state
     = validateMapping [(''japanese'', ''Term'')] initial_state"
  using validateMapping_empty_entries_absent
     [of "[(''japanese'', ''Term''), (''english'', []), (''reading'', []), (''example'', []), (''tags'', [])]" initial_state]
  by (auto simp: Boolean_def truthy_def)

section \<open>Properties of the header-name matching\<close>

text \<open>
  C6, as the code has it. For each canonical field, a header is among the possible
  matches exactly when it is one of the headers and some synonym of the field's list
  occurs in it as a substring after both are lower-cased, where the lists are those of
  the source: they hold U+65E5 U+672C U+8A9E for japanese, and in addition U+82F1 U+8A9E
  for english, U+8AAD U+307F U+65B9 for reading and U+4F8B U+6587 for example.
\<close>

theorem findPossibleMatches_synonym_lists:
  "(h \<in> set (findPossibleMatches lc s ''japanese'') \<longleftrightarrow>
      h \<in> set (headers s) \<and>
      (\<exists>syn \<in> set [''japanese'', ''word'', ''expression'', ''kanji'', ''vocabulary'', lit_nihongo, ''front''].
         sublist (lc syn) (lc h))) \<and>
   (h \<in> set (findPossibleMatches lc s ''english'') \<longleftrightarrow>
      h \<in> set (headers s) \<and>
      (\<exists>syn \<in> set [''english'', ''meaning'', ''translation'', ''definition'', lit_eigo, ''back''].
         sublist (lc syn) (lc h))) \<and>
   (h \<in> set (findPossibleMatches lc s ''reading'') \<longleftrightarrow>
      h \<in> set (headers s) \<and>
      (\<exists>syn \<in> set [''reading'', ''pronunciation'', ''kana'', ''hiragana'', ''yomigana'', lit_yomikata].
         sublist (lc syn) (lc h))) \<and>
   (h \<in> set (findPossibleMatches lc s ''example'') \<longleftrightarrow>
      h \<in> set (headers s) \<and>
      (\<exists>syn \<in> set [''example'', ''sentence'', ''usage'', ''context'', lit_reibun].
         sublist (lc syn) (lc h))) \<and>
   (h \<in> set (findPossibleMatches lc s ''tags'') \<longleftrightarrow>
      h \<in> set (headers s) \<and>
      (\<exists>syn \<in> set [''tags'', ''tag'', ''category'', ''categories'', ''group''].
         sublist (lc syn) (lc h)))"
  by (auto simp: findPossibleMatches_def synonyms_def includes_str_def list_ex_iff)

text \<open>
  Among the headers Word and Meaning (EN), the second is a possible match for english
  and the first is not.
\<close>

theorem findPossibleMatches_synonym_lists_witness:
  "''Meaning (EN)'' \<in> set (findPossibleMatches basic_latin_toLowerCase
       (initial_state\<lparr>headers := [''Word'', ''Meaning (EN)'']\<rparr>) ''english'') \<and>
   ''Word'' \<notin> set (findPossibleMatches basic_latin_toLowerCase
       (initial_state\<lparr>headers := [''Word'', ''Meaning (EN)'']\<rparr>) ''english'')"
proof -
  let ?s = "initial_state\<lparr>headers := [''Word'', ''Meaning (EN)'']\<rparr>"
  have h: "headers ?s = [''Word'', ''Meaning (EN)'']"
    by simp
  have l1: "basic_latin_toLowerCase ''Meaning (EN)'' = ''meaning (en)''"
    by (simp add: basic_latin_toLowerCase_def)
  have l2: "basic_latin_toLowerCase ''Word'' = ''word''"
    by (simp add: basic_latin_toLowerCase_def)
  have syn: "basic_latin_toLowerCase ''english'' = ''english''"
     "basic_latin_toLowerCase ''meaning'' = ''meaning''"
     "basic_latin_toLowerCase ''translation'' = ''translation''"
     "basic_latin_toLowerCase ''definition'' = ''definition''"
     "basic_latin_toLowerCase lit_eigo = lit_eigo"
     "basic_latin_toLowerCase ''back'' = ''back''"
    by (simp_all add: basic_latin_toLowerCase_def lit_eigo_def)
  have yes: "sublist ''meaning'' ''meaning (en)''"
    by (simp add: sublist_code(3))
  have no: "\<not> sublist ''english'' ''word''" "\<not> sublist ''meaning'' ''word''"
     "\<not> sublist ''translation'' ''word''" "\<not> sublist ''definition'' ''word''"
     "\<not> sublist lit_eigo ''word''" "\<not> sublist ''back'' ''word''"
    by (simp_all add: sublist_code(3) lit_eigo_def)
  show ?thesis
    using findPossibleMatches_synonym_lists [of "''Meaning (EN)''" basic_latin_toLowerCase ?s]
          findPossibleMatches_synonym_lists [of "''Word''" basic_latin_toLowerCase ?s]
    by (simp only: h l1 l2 syn yes no list.set bex_simps insert_iff empty_iff simp_thms)
qed

text \<open>
  The header U+82F1 U+8A9E is a possible match for english in the code, although no
  synonym of the list the specification gives for english occurs in it. Lower-casing
  leaves this header and every synonym involved as it is.
\<close>

theorem findPossibleMatches_native_script_counterexample:
  "findPossibleMatches basic_latin_toLowerCase (initial_state\<lparr>headers := [lit_eigo]\<rparr>) ''english''
     = [lit_eigo] \<and>
   \<not> spec_candidate basic_latin_toLowerCase ''english'' lit_eigo"
  by (simp add: findPossibleMatches_def synonyms_def includes_str_def spec_candidate_def
        spec_synonyms_def basic_latin_toLowerCase_def lit_eigo_def initial_state_def sublist_code(3))

section \<open>Properties of the API client\<close>

text \<open>
  C9. \<open>validateFieldMapping\<close> never throws: whatever the HTTP call does, the wrapper
  returns a value, and when the call fails that value is the structured result with
  \<open>valid = false\<close> and the \<open>_general\<close> error
  \<open>Failed to validate field mapping with server\<close>.
\<close>

theorem validateFieldMapping_never_throws:
  "(\<exists>r. validateFieldMapping axios_post sessionId mapping = Inr r) \<and>
   (\<forall>e. axios_post (API_BASE_URL @ ''/mapping/validate'')
             \<lparr>body_session_id = sessionId, body_mapping = mapping\<rparr> = Inl e \<longrightarrow>
        validateFieldMapping axios_post sessionId mapping =
          Inr \<lparr>valid = False,
               errors = [''_general'' \<mapsto> ''Failed to validate field mapping with server'']\<rparr>)"
  by (simp add: validateFieldMapping_def split: sum.splits)

text \<open>With a network error on every request, the wrapper returns the structured result.\<close>

theorem validateFieldMapping_never_throws_witness:
  "validateFieldMapping (\<lambda>url body. Inl (Thrown ''Network Error'')) ''session-1''
      [(''japanese'', ''Term'')] =
     Inr \<lparr>valid = False,
          errors = [''_general'' \<mapsto> ''Failed to validate field mapping with server'']\<rparr>"
  using validateFieldMapping_never_throws
          [of "\<lambda>url body. Inl (Thrown ''Network Error'')" "''session-1''"
              "[(''japanese'', ''Term'')]"]
  by simp

section \<open>Properties of the sense selection\<close>

lemma collect_senses_selected:
  "collect_senses senses ids (ms, ps) =
     (ms @ concat (map (\<lambda>i. sense_meanings (senses ! i)) (filter (\<lambda>i. i < length senses) ids)),
      ps @ concat (map (\<lambda>i. sense_parts_of_speech (senses ! i))
                     (filter (\<lambda>i. i < length senses) ids)))"
  by (induction ids arbitrary: ms ps) auto

lemma handleLookup_success:
  assumes "Boolean (trim (word s))"
      and "lookupWord (trim (word s)) = Inr d"
      and "data_senses d = Some senses"
      and "senses \<noteq> []"
  shows "handleLookup trim lookupWord s =
           s\<lparr>isLoading := False, error := None, result := Some d, selectedSenseIds := [0]\<rparr>"
  using assms by (simp add: handleLookup_def Let_def)

lemma add_request_selected:
  assumes "data_senses d = Some senses" and "selectedSenseIds s \<noteq> []"
  shows "req_meanings (add_request d s) =
           concat (map (\<lambda>i. sense_meanings (senses ! i))
                    (filter (\<lambda>i. i < length senses) (selectedSenseIds s)))"
    and "req_partsOfSpeech (add_request d s) =
           concat (map (\<lambda>i. sense_parts_of_speech (senses ! i))
                    (filter (\<lambda>i. i < length senses) (selectedSenseIds s)))"
    and "req_selectedSenseIds (add_request d s) = Some (selectedSenseIds s)"
  using assms by (simp_all add: add_request_def collect_senses_selected)

lemma handleAddToCollection_refuses:
  assumes "result s = Some d" and "data_senses d = Some senses" and "length senses > 1"
      and "selectedSenseIds s = []"
  shows "handleAddToCollection addWordToCollection s =
           s\<lparr>toasts := toasts s @ [''Please select meanings'']\<rparr>"
  using assms by (simp add: handleAddToCollection_def)

lemma handleAddToCollection_success:
  assumes "result s = Some d" and "selectedSenseIds s \<noteq> []"
      and "addWordToCollection (add_request d s) = Inr response"
  shows "wordCount (handleAddToCollection addWordToCollection s) = resp_word_count response"
  using assms by (simp add: handleAddToCollection_def Let_def)

text \<open>
  C7, as the code has it. When a lookup succeeds with more than one sense,
  \<open>handleLookup\<close> stores the whole response, with every sense, as the result offered for
  selection, and the selection it sets by default is exactly the first sense, index 0;
  left as it is, the meanings and parts of speech of the first sense only are sent.
  Whatever non-empty selection the user makes is what \<open>handleAddToCollection\<close> sends:
  the meanings and parts of speech of exactly the selected senses, in the order
  selected, with their ids. A selection the user has emptied is not replaced by a
  default: \<open>handleAddToCollection\<close> refuses with the warning
  \<open>Please select meanings\<close> and changes nothing else.
\<close>

theorem handleLookup_senses_for_selection:
  assumes "Boolean (trim (word s))"
      and "lookupWord (trim (word s)) = Inr d"
      and "data_senses d = Some senses"
      and "length senses > 1"
  shows "result (handleLookup trim lookupWord s) = Some d \<and>
         selectedSenseIds (handleLookup trim lookupWord s) = [0] \<and>
         req_meanings (add_request d (handleLookup trim lookupWord s))
           = sense_meanings (senses ! 0) \<and>
         req_partsOfSpeech (add_request d (handleLookup trim lookupWord s))
           = sense_parts_of_speech (senses ! 0) \<and>
         req_selectedSenseIds (add_request d (handleLookup trim lookupWord s)) = Some [0] \<and>
         (\<forall>ids. ids \<noteq> [] \<longrightarrow>
            req_meanings (add_request d (setSelectedSenseIds ids (handleLookup trim lookupWord s)))
              = concat (map (\<lambda>i. sense_meanings (senses ! i))
                         (filter (\<lambda>i. i < length senses) ids)) \<and>
            req_partsOfSpeech (add_request d (setSelectedSenseIds ids (handleLookup trim lookupWord s)))
              = concat (map (\<lambda>i. sense_parts_of_speech (senses ! i))
                         (filter (\<lambda>i. i < length senses) ids)) \<and>
            req_selectedSenseIds
                (add_request d (setSelectedSenseIds ids (handleLookup trim lookupWord s)))
              = Some ids) \<and>
         (\<forall>ids response. ids \<noteq> [] \<and>
            addWordToCollection
                (add_request d (setSelectedSenseIds ids (handleLookup trim lookupWord s)))
              = Inr response \<longrightarrow>
            wordCount (handleAddToCollection addWordToCollection
                         (setSelectedSenseIds ids (handleLookup trim lookupWord s)))
              = resp_word_count response) \<and>
         handleAddToCollection addWordToCollection
             (setSelectedSenseIds [] (handleLookup trim lookupWord s))
           = (setSelectedSenseIds [] (handleLookup trim lookupWord s))
               \<lparr>toasts := toasts s @ [''Please select meanings'']\<rparr>"
proof -
  let ?s = "handleLookup trim lookupWord s"
  have ne: "senses \<noteq> []" "0 < length senses"
    using assms(4) by auto
  have looked: "?s = s\<lparr>isLoading := False, error := None, result := Some d, selectedSenseIds := [0]\<rparr>"
    using assms(1,2,3) ne(1) by (rule handleLookup_success)
  have r: "result ?s = Some d" and sel: "selectedSenseIds ?s = [0]" and t: "toasts ?s = toasts s"
    by (simp_all add: looked)
  have first: "req_meanings (add_request d ?s) = sense_meanings (senses ! 0)"
     "req_partsOfSpeech (add_request d ?s) = sense_parts_of_speech (senses ! 0)"
     "req_selectedSenseIds (add_request d ?s) = Some [0]"
    using add_request_selected [OF assms(3), of ?s] sel ne(2) by simp_all
  have chosen: "req_meanings (add_request d (setSelectedSenseIds ids ?s))
              = concat (map (\<lambda>i. sense_meanings (senses ! i))
                         (filter (\<lambda>i. i < length senses) ids)) \<and>
            req_partsOfSpeech (add_request d (setSelectedSenseIds ids ?s))
              = concat (map (\<lambda>i. sense_parts_of_speech (senses ! i))
                         (filter (\<lambda>i. i < length senses) ids)) \<and>
            req_selectedSenseIds (add_request d (setSelectedSenseIds ids ?s)) = Some ids"
    if "ids \<noteq> []" for ids
    using add_request_selected [OF assms(3), of "setSelectedSenseIds ids ?s"] that
    by (simp add: setSelectedSenseIds_def)
  have sent: "wordCount (handleAddToCollection addWordToCollection (setSelectedSenseIds ids ?s))
              = resp_word_count response"
    if "ids \<noteq> [] \<and> addWordToCollection (add_request d (setSelectedSenseIds ids ?s)) = Inr response"
    for ids response
    using handleAddToCollection_success
            [of "setSelectedSenseIds ids ?s" d addWordToCollection response] that r
    by (simp add: setSelectedSenseIds_def)
  have refused: "handleAddToCollection addWordToCollection (setSelectedSenseIds [] ?s)
           = (setSelectedSenseIds [] ?s)\<lparr>toasts := toasts s @ [''Please select meanings'']\<rparr>"
    using handleAddToCollection_refuses
            [of "setSelectedSenseIds [] ?s" d senses addWordToCollection] r t assms(3,4)
    by (simp add: setSelectedSenseIds_def)
  show ?thesis
    using r sel first chosen sent refused by blast
qed

text \<open>
  The word hashi with its two senses: the first sense is pre-selected and sent by
  default, and ticking the second sense instead sends chopsticks.
\<close>

theorem handleLookup_senses_for_selection_witness:
  "result sample_looked_up = Some sample_data \<and>
   selectedSenseIds sample_looked_up = [0] \<and>
   req_meanings (add_request sample_data sample_looked_up) = [''bridge''] \<and>
   req_meanings (add_request sample_data (setSelectedSenseIds [1] sample_looked_up))
     = [''chopsticks'']"
proof -
  let ?s = "initial_lookup_state\<lparr>word := '' hashi ''\<rparr>"
  have tr: "trim_spaces (word ?s) = ''hashi''"
    by (simp add: trim_spaces_def)
  have a1: "Boolean (trim_spaces (word ?s))"
    unfolding tr by (simp add: Boolean_def)
  have a2: "sample_lookupWord (trim_spaces (word ?s)) = Inr sample_data"
    by (simp add: sample_lookupWord_def)
  have a3: "data_senses sample_data = Some sample_senses"
    by (simp add: sample_data_def)
  have a4: "length sample_senses > 1"
    by (simp add: sample_senses_def)
  have m0: "sense_meanings (sample_senses ! 0) = [''bridge'']"
    by (simp add: sample_senses_def)
  have m1: "concat (map (\<lambda>i. sense_meanings (sample_senses ! i))
                      (filter (\<lambda>i. i < length sample_senses) [1])) = [''chopsticks'']"
    by (simp add: sample_senses_def)
  note th = handleLookup_senses_for_selection
            [where trim = trim_spaces and s = "?s" and lookupWord = sample_lookupWord
               and d = sample_data and senses = sample_senses
               and addWordToCollection = sample_addWordToCollection, OF a1 a2 a3 a4,
             folded sample_looked_up_def]
  have c: "req_meanings (add_request sample_data (setSelectedSenseIds [1] sample_looked_up))
             = [''chopsticks'']"
    using th m1 by simp
  show ?thesis
    using th m0 c by simp
qed

text \<open>
  After the same lookup, with the selection emptied by the user: adding the word is
  refused, nothing is added, and the first sense is not taken as a default. With the
  pre-selection left in place the same call adds the word.
\<close>

theorem handleAddToCollection_empty_selection_counterexample:
  "result (setSelectedSenseIds [] sample_looked_up) = Some sample_data \<and>
   data_senses sample_data = Some sample_senses \<and>
   length sample_senses = 2 \<and>
   selectedSenseIds (setSelectedSenseIds [] sample_looked_up) = [] \<and>
   toasts (handleAddToCollection sample_addWordToCollection
             (setSelectedSenseIds [] sample_looked_up)) = [''Please select meanings''] \<and>
   wordCount (handleAddToCollection sample_addWordToCollection
                (setSelectedSenseIds [] sample_looked_up)) = 0 \<and>
   wordCount (handleAddToCollection sample_addWordToCollection sample_looked_up) = 1"
proof -
  have looked: "sample_looked_up =
      initial_lookup_state\<lparr>word := '' hashi '', isLoading := False, error := None,
                           result := Some sample_data, selectedSenseIds := [0]\<rparr>"
    by (simp add: sample_looked_up_def handleLookup_def trim_spaces_def Boolean_def
          sample_lookupWord_def sample_data_def sample_senses_def Let_def)
  have d: "data_senses sample_data = Some sample_senses"
    by (simp add: sample_data_def)
  have n: "length sample_senses = 2"
    by (simp add: sample_senses_def)
  have refused: "handleAddToCollection sample_addWordToCollection
                   (setSelectedSenseIds [] sample_looked_up)
       = (setSelectedSenseIds [] sample_looked_up)\<lparr>toasts := [''Please select meanings'']\<rparr>"
    by (simp add: looked setSelectedSenseIds_def handleAddToCollection_def d n
          initial_lookup_state_def)
  have added: "wordCount (handleAddToCollection sample_addWordToCollection sample_looked_up) = 1"
    by (simp add: looked handleAddToCollection_def d n sample_addWordToCollection_def Let_def)
  show ?thesis
    using d n added
    by (simp add: refused) (simp add: looked setSelectedSenseIds_def initial_lookup_state_def)
qed

section \<open>Properties of the enrichment and of the card assembly\<close>















end
